theory Spec2Isabelle
  imports Complex_Main
begin

section \<open>The web search tool (src/lib/ai/tools/web/web-search.ts)\<close>

text \<open>
  A shallow embedding of the Tavily-backed search and contents tools.

  Conventions of the embedding.
  \<^item> A JavaScript string is a \<open>string\<close> (a list of code units); an optional
    field \<open>f?: T\<close> is a \<open>T option\<close>, \<open>None\<close> standing for \<open>undefined\<close>.
  \<^item> A JavaScript number that the code only copies (scores, response times) is
    a \<open>real\<close>; the numbers the code computes with (\<open>numResults\<close>,
    \<open>maxCharacters\<close>, the HTTP status) are integers.
  \<^item> A thrown exception or a rejected promise is a value \<open>Inl e\<close> of a sum type;
    \<open>await\<close> is sequencing.
  \<^item> The outbound HTTP calls are recorded: each function that can reach
    \<open>fetch\<close> returns, next to its outcome, the list of requests it has made.
  \<^item> Record fields carry a short prefix of their interface where two interfaces
    of the source share a field name.
\<close>

subsection \<open>Interfaces\<close>

text \<open>\<open>TavilySearchRequest\<close>, lines 7-25.\<close>

record TavilySearchRequest =
  query :: string
  search_depth :: "string option"
  topic :: "string option"
  max_results :: "int option"
  include_answer :: "bool option"
  include_images :: "bool option"
  include_image_descriptions :: "bool option"
  include_raw_content :: "bool option"
  include_domains :: "string list option"
  exclude_domains :: "string list option"
  time_range :: "string option"
  country :: "string option"
  start_date :: "string option"
  end_date :: "string option"
  max_tokens :: "int option"
  chunks_per_source :: "int option"
  include_favicon :: "bool option"

text \<open>\<open>TavilySearchResult\<close>, lines 27-35.\<close>

record TavilySearchResult =
  t_title :: string
  t_url :: string
  t_content :: string
  t_score :: real
  t_published_date :: "string option"
  t_raw_content :: "string option"
  t_favicon :: "string option"

text \<open>\<open>TavilyImageResult\<close>, lines 37-40.\<close>

record TavilyImageResult =
  i_url :: string
  i_description :: "string option"

text \<open>
  An entry of \<open>images?: TavilyImageResult[] | string[]\<close>: the code tests each
  entry with \<open>typeof imageItem === "string"\<close>.
\<close>

datatype image_item = ImageString string | ImageObject TavilyImageResult

text \<open>\<open>TavilySearchResponse\<close>, lines 42-49.\<close>

record TavilySearchResponse =
  s_query :: string
  s_results :: "TavilySearchResult list"
  s_answer :: "string option"
  s_images :: "image_item list option"
  s_response_time :: real
  s_request_id :: string

text \<open>\<open>ExaSearchResult\<close>, lines 52-62.\<close>

record ExaSearchResult =
  x_id :: string
  x_title :: string
  x_url :: string
  x_publishedDate :: string
  x_author :: string
  x_text :: string
  x_image :: "string option"
  x_favicon :: "string option"
  x_score :: "real option"

text \<open>\<open>ExaSearchResponse\<close>, lines 64-69.\<close>

record ExaSearchResponse =
  requestId :: string
  autopromptString :: string
  resolvedSearchType :: string
  results :: "ExaSearchResult list"

text \<open>The object \<open>{...result, guide}\<close> that \<open>exaSearchTool\<close> returns, lines 395-398.\<close>

record ExaSearchResponseWithGuide = ExaSearchResponse +
  guide :: string

text \<open>The object \<open>{results}\<close> that the contents tools return, lines 341-343.\<close>

record ExaContentsResponse =
  c_results :: "ExaSearchResult list"

text \<open>The object that the \<open>ifFail\<close> handlers return, lines 401-406 and 472-477.\<close>

record ErrorPayload =
  isError :: bool
  error :: string
  solution :: string

text \<open>The parameters accepted under \<open>exaSearchSchema\<close>, lines 71-140.\<close>

record SearchParams =
  p_query :: string
  p_numResults :: "int option"
  p_type :: "string option"
  p_category :: "string option"
  p_includeDomains :: "string list option"
  p_excludeDomains :: "string list option"
  p_startPublishedDate :: "string option"
  p_endPublishedDate :: "string option"
  p_maxCharacters :: "int option"

text \<open>The parameters accepted under \<open>exaContentsSchema\<close>, lines 142-166.\<close>

record ContentsParams =
  urls :: "string list"
  maxCharacters :: "int option"
  livecrawl :: "string option"

subsection \<open>The platform: exceptions, environment, URL parser, fetch\<close>

text \<open>A thrown \<open>Error\<close> object; the code reads only its \<open>message\<close>.\<close>

datatype js_error = Error (message: string)

text \<open>
  The process: \<open>process.env\<close>, and the module-level constants of web-search.ts
  (lines 168-169), which are evaluated once, when the module is loaded.
\<close>

record module_consts =
  API_KEY :: "string option"
  BASE_URL :: string

record process =
  env :: "string \<rightharpoonup> string"
  web_search :: module_consts

text \<open>Loading the module evaluates lines 168-169 in the environment of that moment.\<close>

definition load_module :: "(string \<rightharpoonup> string) \<Rightarrow> process" where
  "load_module e =
     \<lparr>env = e,
      web_search = \<lparr>API_KEY = e ''TAVILY_API_KEY'', BASE_URL = ''https://api.tavily.com''\<rparr>\<rparr>"

text \<open>An assignment to (or, with \<open>None\<close>, a deletion of) \<open>process.env[k]\<close>.\<close>

definition setenv :: "string \<Rightarrow> string option \<Rightarrow> process \<Rightarrow> process" where
  "setenv k v p = p\<lparr>env := (env p)(k := v)\<rparr>"

text \<open>What \<open>new URL(url)\<close> gives: the parser is the platform's and is a parameter.\<close>

record url_obj =
  hostname :: string
  pathname :: string

type_synonym url_parser = "string \<Rightarrow> js_error + url_obj"

text \<open>
  A request as \<open>fetch\<close> receives it, and the response it resolves to.
  \<open>text_body\<close> and \<open>json_body\<close> are the outcomes of \<open>response.text()\<close> and
  \<open>response.json()\<close>; \<open>ok\<close> is the platform's derived property.
\<close>

record http_request =
  r_url :: string
  r_method :: string
  r_headers :: "(string \<times> string) list"
  r_body :: TavilySearchRequest

record 'j http_response =
  status :: nat
  statusText :: string
  text_body :: "js_error + string"
  json_body :: "js_error + 'j"

definition ok :: "'j http_response \<Rightarrow> bool" where
  "ok response = (200 \<le> status response \<and> status response \<le> 299)"

type_synonym 'j fetch = "http_request \<Rightarrow> js_error + 'j http_response"

text \<open>JavaScript truthiness of an optional string, and \<open>x || d\<close> on strings.\<close>

definition truthy :: "string option \<Rightarrow> bool" where
  "truthy s = (case s of None \<Rightarrow> False | Some v \<Rightarrow> v \<noteq> [])"

definition or_else :: "string option \<Rightarrow> string \<Rightarrow> string" where
  "or_else s d = (case s of None \<Rightarrow> d | Some v \<Rightarrow> if v \<noteq> [] then v else d)"

text \<open>The decimal rendering of a number in a template literal.\<close>

fun show_nat :: "nat \<Rightarrow> string" where
  "show_nat n =
     (if n < 10 then [''0123456789'' ! n]
      else show_nat (n div 10) @ [''0123456789'' ! (n mod 10)])"

declare show_nat.simps [simp del]

text \<open>\<open>String.prototype.includes\<close> and \<open>String.prototype.substring(0, n)\<close>.\<close>

primrec startsWith :: "string \<Rightarrow> string \<Rightarrow> bool" where
  "startsWith s [] = True"
| "startsWith s (c # cs) = (case s of [] \<Rightarrow> False | d # ds \<Rightarrow> d = c \<and> startsWith ds cs)"

primrec includes_str :: "string \<Rightarrow> string \<Rightarrow> bool" where
  "includes_str [] pat = (pat = [])"
| "includes_str (c # s) pat = (startsWith (c # s) pat \<or> includes_str s pat)"

definition substring0 :: "string \<Rightarrow> int \<Rightarrow> string" where
  "substring0 s n = take (nat n) s"

subsection \<open>\<open>fetchTavily\<close>, lines 171-200\<close>

text \<open>Lines 176-183: the arguments of \<open>fetch\<close>.\<close>

definition tavilyRequest :: "process \<Rightarrow> string \<Rightarrow> TavilySearchRequest \<Rightarrow> http_request" where
  "tavilyRequest p endpoint body =
     \<lparr>r_url = BASE_URL (web_search p) @ endpoint,
      r_method = ''POST'',
      r_headers = [(''Content-Type'', ''application/json''),
                   (''api-key'', the (API_KEY (web_search p)))],
      r_body = body\<rparr>"

definition fetchTavily ::
  "process \<Rightarrow> 'j fetch \<Rightarrow> string \<Rightarrow> TavilySearchRequest \<Rightarrow> (js_error + 'j) \<times> http_request list"
where
  "fetchTavily p net endpoint body =
     (if \<not> truthy (API_KEY (web_search p)) then
        (Inl (Error ''TAVILY_API_KEY is not configured''), [])
      else
        case net (tavilyRequest p endpoint body) of
          Inl e \<Rightarrow> (Inl e, [tavilyRequest p endpoint body])
        | Inr response \<Rightarrow>
            (if status response = 401 then Inl (Error ''Invalid Tavily API key'')
             else if status response = 429 then Inl (Error ''Tavily API usage limit exceeded'')
             else if \<not> ok response then
               (let errorText = (case text_body response of Inl _ \<Rightarrow> [] | Inr t \<Rightarrow> t)
                in Inl (Error (''Tavily API error: '' @ show_nat (status response) @ '' ''
                                @ statusText response
                                @ (if errorText \<noteq> [] then '' - '' @ errorText else []))))
             else json_body response,
             [tavilyRequest p endpoint body]))"

subsection \<open>\<open>transformTavilyToExaFormat\<close>, lines 203-235\<close>

text \<open>Lines 212-220: the image of the result at \<open>index\<close>.\<close>

definition imageUrl :: "image_item list option \<Rightarrow> nat \<Rightarrow> string option" where
  "imageUrl images index =
     (case images of
        None \<Rightarrow> None
      | Some imgs \<Rightarrow>
          if length imgs > 0 then
            (if index < length imgs then
               (case imgs ! index of
                  ImageString s \<Rightarrow> Some s
                | ImageObject obj \<Rightarrow> if i_url obj \<noteq> [] then Some (i_url obj) else None)
             else None)
          else None)"

definition transformTavilyToExaFormat :: "TavilySearchResponse \<Rightarrow> ExaSearchResponse" where
  "transformTavilyToExaFormat tavilyResponse =
     \<lparr>requestId = s_request_id tavilyResponse,
      autopromptString = or_else (s_answer tavilyResponse) '''',
      resolvedSearchType = ''neural'',
      results =
        map (\<lambda>(index, result).
               \<lparr>x_id = t_url result,
                x_title = t_title result,
                x_url = t_url result,
                x_publishedDate = or_else (t_published_date result) '''',
                x_author = '''',
                x_text = t_content result,
                x_image = imageUrl (s_images tavilyResponse) index,
                x_favicon = t_favicon result,
                x_score = Some (t_score result)\<rparr>)
            (enumerate 0 (s_results tavilyResponse))\<rparr>"

text \<open>
  The value that reaches the function at run time. \<open>fetchTavily\<close> returns
  \<open>any\<close> (lines 171 and 199) and nothing checks the parsed body against the
  interface before line 282 or 393 hands it over. The values are told apart by
  what lines 207-233 do to them:
  \<^item> the body \<open>null\<close>: reading \<open>request_id\<close> (line 207) throws;
  \<^item> a body whose \<open>results\<close> is \<open>undefined\<close>, \<open>null\<close> or not an array (a
    body that is a number, a string or a boolean has no \<open>results\<close> either):
    the call of \<open>map\<close> (line 210) throws;
  \<^item> a body whose \<open>results\<close> is an array holding \<open>null\<close>: reading \<open>url\<close> in
    the callback (line 223) throws;
  \<^item> a body whose \<open>results\<close> is an array of objects: the function returns.
  The other fields are as the interface declares them. The messages are the
  engine's (here in the wording of V8); the code only passes them on.
\<close>

datatype any_results =
    ResultsUndefined
  | ResultsNull
  | ResultsNotArray
  | ResultsArray "TavilySearchResult option list"

datatype any_response =
    JsonNull
  | JsonObject (j_query: string) (j_answer: "string option") (j_images: "image_item list option")
      (j_response_time: real) (j_request_id: string) (j_results: any_results)

definition transformTavilyToExaFormat_any :: "any_response \<Rightarrow> js_error + ExaSearchResponse" where
  "transformTavilyToExaFormat_any tavilyResponse =
     (case tavilyResponse of
        JsonNull \<Rightarrow> Inl (Error ''Cannot read properties of null (reading 'request_id')'')
      | JsonObject q answer images time request_id rs \<Rightarrow>
          (case rs of
             ResultsUndefined \<Rightarrow>
               Inl (Error ''Cannot read properties of undefined (reading 'map')'')
           | ResultsNull \<Rightarrow>
               Inl (Error ''Cannot read properties of null (reading 'map')'')
           | ResultsNotArray \<Rightarrow>
               Inl (Error ''tavilyResponse.results.map is not a function'')
           | ResultsArray xs \<Rightarrow>
               if None \<in> set xs then
                 Inl (Error ''Cannot read properties of null (reading 'url')'')
               else
                 Inr (transformTavilyToExaFormat
                        \<lparr>s_query = q, s_results = map the xs, s_answer = answer,
                         s_images = images, s_response_time = time,
                         s_request_id = request_id\<rparr>)))"

text \<open>A body of the declared shape, as a run-time value.\<close>

definition shaped :: "TavilySearchResponse \<Rightarrow> any_response" where
  "shaped r =
     JsonObject (s_query r) (s_answer r) (s_images r) (s_response_time r) (s_request_id r)
       (ResultsArray (map Some (s_results r)))"

subsection \<open>The search tools, lines 237-284 and 347-410\<close>

text \<open>
  Lines 243-246 and 354-357: the \<open>type\<close> parameter is used only when it is one
  of the three enum values.
\<close>

definition normalizedType :: "SearchParams \<Rightarrow> string" where
  "normalizedType params =
     (if truthy (p_type params) \<and> the (p_type params) \<in> set [''auto'', ''keyword'', ''neural'']
      then the (p_type params)
      else ''auto'')"

text \<open>\<open>x?.length\<close> as a condition: the list is given and is not empty.\<close>

definition has_length :: "string list option \<Rightarrow> bool" where
  "has_length l = (case l of None \<Rightarrow> False | Some xs \<Rightarrow> length xs \<noteq> 0)"

text \<open>
  Lines 248-279 of \<open>exaSearchToolForWorkflow\<close>, repeated word for word at lines
  359-390 of \<open>exaSearchTool\<close>: the request object after the five conditional
  assignments.
\<close>

definition searchRequest :: "SearchParams \<Rightarrow> TavilySearchRequest" where
  "searchRequest params =
     (let r0 = \<lparr>query = p_query params,
                search_depth =
                  Some (if normalizedType params = ''neural'' then ''advanced''
                        else if normalizedType params = ''keyword'' then ''basic''
                        else ''basic''),
                topic = None,
                max_results =
                  Some (case p_numResults params of
                          None \<Rightarrow> 5
                        | Some n \<Rightarrow> if n \<noteq> 0 then n else 5),
                include_answer = Some False,
                include_images = Some True,
                include_image_descriptions = Some False,
                include_raw_content = Some False,
                include_domains = None,
                exclude_domains = None,
                time_range = None,
                country = None,
                start_date = None,
                end_date = None,
                max_tokens = None,
                chunks_per_source = None,
                include_favicon = Some True\<rparr>;
          r1 = (if p_category params = Some ''news'' then r0\<lparr>topic := Some ''news''\<rparr> else r0);
          r2 = (if has_length (p_includeDomains params)
                then r1\<lparr>include_domains := p_includeDomains params\<rparr> else r1);
          r3 = (if has_length (p_excludeDomains params)
                then r2\<lparr>exclude_domains := p_excludeDomains params\<rparr> else r2);
          r4 = (if truthy (p_startPublishedDate params)
                then r3\<lparr>start_date := p_startPublishedDate params\<rparr> else r3);
          r5 = (if truthy (p_endPublishedDate params)
                then r4\<lparr>end_date := p_endPublishedDate params\<rparr> else r4)
      in r5)"

text \<open>
  Lines 281-282: a failure of \<open>fetchTavily\<close> or of the translation rejects the
  promise that \<open>execute\<close> returns.
\<close>

definition exaSearchToolForWorkflow ::
  "process \<Rightarrow> any_response fetch \<Rightarrow> SearchParams
     \<Rightarrow> (js_error + ExaSearchResponse) \<times> http_request list"
where
  "exaSearchToolForWorkflow p net params =
     (case fetchTavily p net ''/search'' (searchRequest params) of
        (Inl e, calls) \<Rightarrow> (Inl e, calls)
      | (Inr response, calls) \<Rightarrow> (transformTavilyToExaFormat_any response, calls))"

text \<open>
  The chain \<open>safe(f).ifFail(h).unwrap()\<close> of the ts-safe package: \<open>safe\<close> runs
  \<open>f\<close> and keeps its outcome, \<open>ifFail\<close> replaces a failure by the handler's
  value, \<open>unwrap\<close> returns the value or throws the failure that is left.
  The value is then either the handler's (\<open>Inl\<close>) or the function's (\<open>Inr\<close>).
\<close>

definition safe :: "(js_error + 'a) \<Rightarrow> (js_error + 'a)" where
  "safe outcome = outcome"

definition ifFail :: "(js_error \<Rightarrow> 'b) \<Rightarrow> (js_error + 'a) \<Rightarrow> (js_error + ('b + 'a))" where
  "ifFail handler outcome =
     (case outcome of Inl e \<Rightarrow> Inr (Inl (handler e)) | Inr v \<Rightarrow> Inr (Inr v))"

definition unwrap :: "(js_error + 'a) \<Rightarrow> (js_error + 'a)" where
  "unwrap outcome = outcome"

definition search_guide :: string where
  "search_guide = ''Use the search results to answer the user's question. Summarize the content and ask if they have any additional questions about the topic.''"

definition search_solution :: string where
  "search_solution = ''A web search error occurred. First, explain to the user what caused this specific error and how they can resolve it. Then provide helpful information based on your existing knowledge to answer their question.''"

definition contents_solution :: string where
  "contents_solution = ''A web content extraction error occurred. First, explain to the user what caused this specific error and how they can resolve it. Then provide helpful information based on your existing knowledge to answer their question.''"

text \<open>
  Lines 352-408. The function given to \<open>safe\<close> holds both the call of
  \<open>fetchTavily\<close> (line 392) and the translation (line 393), so a failure of
  either is what \<open>ifFail\<close> receives.
\<close>

definition exaSearchTool ::
  "process \<Rightarrow> any_response fetch \<Rightarrow> SearchParams
     \<Rightarrow> (js_error + (ErrorPayload + ExaSearchResponseWithGuide)) \<times> http_request list"
where
  "exaSearchTool p net params =
     (let (tavilyResponse, calls) = fetchTavily p net ''/search'' (searchRequest params);
          body = (case tavilyResponse of
                    Inl e \<Rightarrow> Inl e
                  | Inr response \<Rightarrow>
                      (case transformTavilyToExaFormat_any response of
                         Inl e \<Rightarrow> Inl e
                       | Inr result \<Rightarrow>
                           Inr \<lparr>requestId = requestId result,
                                autopromptString = autopromptString result,
                                resolvedSearchType = resolvedSearchType result,
                                results = results result,
                                guide = search_guide\<rparr>))
      in (unwrap
            (ifFail (\<lambda>e. \<lparr>isError = True, error = message e, solution = search_solution\<rparr>)
               (safe body)),
          calls))"

subsection \<open>The contents tools, lines 286-345 and 412-481\<close>

text \<open>\<open>Array.prototype.find(pred) || d\<close> on a list of objects.\<close>

definition find_or :: "('a \<Rightarrow> bool) \<Rightarrow> 'a list \<Rightarrow> 'a \<Rightarrow> 'a" where
  "find_or pred xs d = (case find pred xs of None \<Rightarrow> d | Some x \<Rightarrow> x)"

text \<open>
  Lines 324-328: \<open>raw_content?.substring(0, maxCharacters || 3000) || content\<close>.
\<close>

definition resultText :: "ContentsParams \<Rightarrow> TavilySearchResult \<Rightarrow> string" where
  "resultText params matchingResult =
     or_else
       (case t_raw_content matchingResult of
          None \<Rightarrow> None
        | Some raw \<Rightarrow>
            Some (substring0 raw
                    (case maxCharacters params of
                       None \<Rightarrow> 3000
                     | Some n \<Rightarrow> if n \<noteq> 0 then n else 3000)))
       (t_content matchingResult)"

text \<open>
  The callback of \<open>params.urls.map\<close>, lines 295-338, repeated word for word at
  lines 421-464: the entry of one URL (\<open>None\<close> for \<open>null\<close>) and the requests
  made for it; \<open>contentsRequest\<close> is the object literal of lines 300-307.
  The \<open>try\<close> block catches the failure of \<open>new URL\<close> and of
  \<open>fetchTavily\<close>; what \<open>console.error\<close> prints is not part of the value.
  The body that \<open>fetchTavily\<close> returns is taken here to be of the declared shape.
\<close>

definition contentsRequest :: "string \<Rightarrow> string \<Rightarrow> TavilySearchRequest" where
  "contentsRequest url domain =
     \<lparr>query = url,
      search_depth = Some ''advanced'',
      topic = None,
      max_results = Some 1,
      include_answer = None,
      include_images = None,
      include_image_descriptions = None,
      include_raw_content = Some True,
      include_domains = Some [domain],
      exclude_domains = None,
      time_range = None,
      country = None,
      start_date = None,
      end_date = None,
      max_tokens = None,
      chunks_per_source = None,
      include_favicon = Some True\<rparr>"

definition urlContents ::
  "process \<Rightarrow> url_parser \<Rightarrow> TavilySearchResponse fetch \<Rightarrow> ContentsParams \<Rightarrow> string
     \<Rightarrow> ExaSearchResult option \<times> http_request list"
where
  "urlContents p parse net params url =
     (case parse url of
        Inl e \<Rightarrow> (None, [])
      | Inr urlObj \<Rightarrow>
          (case fetchTavily p net ''/search'' (contentsRequest url (hostname urlObj)) of
             (Inl e, calls) \<Rightarrow> (None, calls)
           | (Inr response, calls) \<Rightarrow>
               (case s_results response of
                  [] \<Rightarrow> (None, calls)
                | result # rest \<Rightarrow>
                    (let matchingResult =
                           find_or (\<lambda>r. includes_str (t_url r) (pathname urlObj))
                             (s_results response) result
                     in (Some \<lparr>x_id = url,
                               x_title = t_title matchingResult,
                               x_url = t_url matchingResult,
                               x_publishedDate = or_else (t_published_date matchingResult) [],
                               x_author = [],
                               x_text = resultText params matchingResult,
                               x_image = None,
                               x_favicon = t_favicon matchingResult,
                               x_score = Some (t_score matchingResult)\<rparr>,
                         calls)))))"

text \<open>
  \<open>Promise.all\<close> over the callbacks, then \<open>filter((r) => r !== null)\<close>: the
  entries in the order of \<open>urls\<close>. Each callback reaches \<open>fetch\<close> before its
  first suspension, so the requests are issued in the order of \<open>urls\<close> too.
\<close>

definition allContents ::
  "process \<Rightarrow> url_parser \<Rightarrow> TavilySearchResponse fetch \<Rightarrow> ContentsParams
     \<Rightarrow> ExaContentsResponse \<times> http_request list"
where
  "allContents p parse net params =
     (let outcomes = map (urlContents p parse net params) (urls params)
      in (\<lparr>c_results = map the (filter (\<lambda>r. r \<noteq> None) (map fst outcomes))\<rparr>,
          concat (map snd outcomes)))"

definition exaContentsToolForWorkflow ::
  "process \<Rightarrow> url_parser \<Rightarrow> TavilySearchResponse fetch \<Rightarrow> ContentsParams
     \<Rightarrow> (js_error + ExaContentsResponse) \<times> http_request list"
where
  "exaContentsToolForWorkflow p parse net params =
     (Inr (fst (allContents p parse net params)), snd (allContents p parse net params))"

definition exaContentsTool ::
  "process \<Rightarrow> url_parser \<Rightarrow> TavilySearchResponse fetch \<Rightarrow> ContentsParams
     \<Rightarrow> (js_error + (ErrorPayload + ExaContentsResponse)) \<times> http_request list"
where
  "exaContentsTool p parse net params =
     (unwrap
        (ifFail (\<lambda>e. \<lparr>isError = True, error = message e, solution = contents_solution\<rparr>)
           (safe (Inr (fst (allContents p parse net params))))),
      snd (allContents p parse net params))"

subsection \<open>The lookup of one URL\<close>

text \<open>
  The backing lookup that the contents tools make for one URL: parsing the URL,
  then the call for its domain. It succeeds when neither step fails and the
  response holds at least one result.
\<close>

definition lookup ::
  "process \<Rightarrow> url_parser \<Rightarrow> TavilySearchResponse fetch \<Rightarrow> string
     \<Rightarrow> js_error + TavilySearchResponse"
where
  "lookup p parse net url =
     (case parse url of
        Inl e \<Rightarrow> Inl e
      | Inr urlObj \<Rightarrow> fst (fetchTavily p net ''/search'' (contentsRequest url (hostname urlObj))))"

definition lookup_succeeds ::
  "process \<Rightarrow> url_parser \<Rightarrow> TavilySearchResponse fetch \<Rightarrow> string \<Rightarrow> bool"
where
  "lookup_succeeds p parse net url =
     (case lookup p parse net url of Inl e \<Rightarrow> False | Inr response \<Rightarrow> s_results response \<noteq> [])"

subsection \<open>Sample inputs\<close>

text \<open>A process whose module was loaded with a key, and one loaded without.\<close>

definition sample_process :: process where
  "sample_process = load_module [''TAVILY_API_KEY'' \<mapsto> ''tvly-1'']"

definition keyless_process :: process where
  "keyless_process = load_module Map.empty"

definition sample_params :: SearchParams where
  "sample_params =
     \<lparr>p_query = ''isabelle'',
      p_numResults = None,
      p_type = Some ''neural'',
      p_category = Some ''news'',
      p_includeDomains = Some [''a.com''],
      p_excludeDomains = Some [],
      p_startPublishedDate = Some ''2024-01-01'',
      p_endPublishedDate = None,
      p_maxCharacters = None\<rparr>"

definition sample_result :: "string \<Rightarrow> TavilySearchResult" where
  "sample_result u =
     \<lparr>t_title = ''T'', t_url = u, t_content = ''snippet'', t_score = 1,
      t_published_date = None, t_raw_content = None, t_favicon = None\<rparr>"

definition sample_response :: TavilySearchResponse where
  "sample_response =
     \<lparr>s_query = ''isabelle'',
      s_results = [sample_result ''http://a.com/1'', sample_result ''http://b.com/2''],
      s_answer = None,
      s_images = Some [ImageString ''http://a.png''],
      s_response_time = 1,
      s_request_id = ''req-1''\<rparr>"

text \<open>
  A backing service that answers every request with the given status and a body
  of the declared shape, and one that answers with status 200 and a given body.
\<close>

definition answering :: "nat \<Rightarrow> string \<Rightarrow> js_error + string \<Rightarrow> any_response fetch" where
  "answering code reason body req =
     Inr \<lparr>status = code, statusText = reason, text_body = body,
          json_body = Inr (shaped sample_response)\<rparr>"

definition replying :: "any_response \<Rightarrow> any_response fetch" where
  "replying v req = Inr \<lparr>status = 200, statusText = ''OK'', text_body = Inr [], json_body = Inr v\<rparr>"

text \<open>A body without \<open>results\<close>, such as an error object sent with status 200.\<close>

definition unshaped_body :: any_response where
  "unshaped_body = JsonObject ''isabelle'' None None 1 ''req-3'' ResultsUndefined"

text \<open>
  A URL parser that knows three URLs, and a backing service whose call for
  \<open>a.com\<close> is rejected, whose answer for \<open>c.com\<close> holds no result and whose
  answer for any other domain holds one result.
\<close>

definition sample_parse :: url_parser where
  "sample_parse u =
     (if u = ''https://a.com/x'' then Inr \<lparr>hostname = ''a.com'', pathname = ''/x''\<rparr>
      else if u = ''https://b.com/y'' then Inr \<lparr>hostname = ''b.com'', pathname = ''/y''\<rparr>
      else if u = ''https://c.com/z'' then Inr \<lparr>hostname = ''c.com'', pathname = ''/z''\<rparr>
      else Inl (Error ''Invalid URL''))"

definition sample_net :: "TavilySearchResponse fetch" where
  "sample_net req =
     (if include_domains (r_body req) = Some [''a.com''] then Inl (Error ''fetch failed'')
      else Inr \<lparr>status = 200, statusText = ''OK'', text_body = Inr [],
                json_body = Inr \<lparr>s_query = query (r_body req),
                                  s_results =
                                    (if include_domains (r_body req) = Some [''c.com''] then []
                                     else [sample_result ''https://www.b.com/y'']),
                                  s_answer = None,
                                  s_images = None,
                                  s_response_time = 1,
                                  s_request_id = ''req-2''\<rparr>\<rparr>)"

definition sample_contents_params :: ContentsParams where
  "sample_contents_params =
     \<lparr>urls = [''https://a.com/x'', ''https://b.com/y''], maxCharacters = Some 3000,
      livecrawl = None\<rparr>"

section \<open>Properties\<close>

subsection \<open>Auxiliary facts\<close>

lemma normalizedType_cases:
  "normalizedType params =
     (if p_type params = Some ''keyword'' then ''keyword''
      else if p_type params = Some ''neural'' then ''neural''
      else ''auto'')"
  by (cases "p_type params") (auto simp: normalizedType_def truthy_def)

lemma has_length_iff: "has_length l \<longleftrightarrow> l \<notin> {None, Some []}"
  by (cases l) (auto simp: has_length_def)

lemma truthy_iff: "truthy s \<longleftrightarrow> s \<notin> {None, Some []}"
  by (cases s) (auto simp: truthy_def)

lemma fetchTavily_calls:
  "snd (fetchTavily p net endpoint body) =
     (if truthy (API_KEY (web_search p)) then [tavilyRequest p endpoint body] else [])"
  by (simp add: fetchTavily_def split: sum.splits)

lemma exaSearchToolForWorkflow_calls:
  "snd (exaSearchToolForWorkflow p net params) =
     snd (fetchTavily p net ''/search'' (searchRequest params))"
  by (simp add: exaSearchToolForWorkflow_def split: prod.splits sum.splits)

lemma exaSearchTool_calls:
  "snd (exaSearchTool p net params) =
     snd (fetchTavily p net ''/search'' (searchRequest params))"
  by (simp add: exaSearchTool_def split: prod.splits)

lemma search_depth_searchRequest:
  "search_depth (searchRequest params) =
     Some (if normalizedType params = ''neural'' then ''advanced'' else ''basic'')"
  by (simp add: searchRequest_def Let_def)

lemma exaSearchToolForWorkflow_outcome:
  "fst (exaSearchToolForWorkflow p net params) =
     (case fst (fetchTavily p net ''/search'' (searchRequest params)) of
        Inl e \<Rightarrow> Inl e
      | Inr response \<Rightarrow> transformTavilyToExaFormat_any response)"
  by (simp add: exaSearchToolForWorkflow_def split: prod.splits sum.splits)

lemma transformTavilyToExaFormat_any_shaped:
  "transformTavilyToExaFormat_any (shaped r) = Inr (transformTavilyToExaFormat r)"
  by (cases r) (simp add: transformTavilyToExaFormat_any_def shaped_def comp_def image_iff)

lemma transformTavilyToExaFormat_any_Inr:
  "transformTavilyToExaFormat_any v = Inr out \<Longrightarrow> \<exists>r. out = transformTavilyToExaFormat r"
  by (auto simp: transformTavilyToExaFormat_any_def
      split: any_response.splits any_results.splits if_splits)

lemma exaSearchTool_outcome:
  "fst (exaSearchTool p net params) =
     (case fst (exaSearchToolForWorkflow p net params) of
        Inl e \<Rightarrow> Inr (Inl \<lparr>isError = True, error = message e, solution = search_solution\<rparr>)
      | Inr result \<Rightarrow>
          Inr (Inr \<lparr>requestId = requestId result,
                    autopromptString = autopromptString result,
                    resolvedSearchType = resolvedSearchType result,
                    results = results result,
                    guide = search_guide\<rparr>))"
  by (simp add: exaSearchTool_def exaSearchToolForWorkflow_outcome safe_def ifFail_def unwrap_def
      Let_def split: prod.splits sum.splits)

lemma length_results_transform:
  "length (results (transformTavilyToExaFormat r)) = length (s_results r)"
  by (simp add: transformTavilyToExaFormat_def)

lemma nth_results_transform:
  assumes "i < length (s_results r)"
  shows "results (transformTavilyToExaFormat r) ! i =
     \<lparr>x_id = t_url (s_results r ! i),
      x_title = t_title (s_results r ! i),
      x_url = t_url (s_results r ! i),
      x_publishedDate = or_else (t_published_date (s_results r ! i)) [],
      x_author = [],
      x_text = t_content (s_results r ! i),
      x_image = imageUrl (s_images r) i,
      x_favicon = t_favicon (s_results r ! i),
      x_score = Some (t_score (s_results r ! i))\<rparr>"
  using assms by (simp add: transformTavilyToExaFormat_def nth_enumerate_eq)

lemma id_url_transform:
  "x \<in> set (results (transformTavilyToExaFormat r)) \<Longrightarrow> x_id x = x_url x"
  by (auto simp: transformTavilyToExaFormat_def)

lemma find_or_in: "d \<in> set xs \<Longrightarrow> find_or pred xs d \<in> set xs"
  by (auto simp: find_or_def find_Some_iff split: option.splits)

lemma urlContents_id:
  "fst (urlContents p parse net params u) = Some x \<Longrightarrow> x_id x = u"
  by (auto simp: urlContents_def Let_def split: sum.splits prod.splits list.splits)

lemma urlContents_None_iff:
  "fst (urlContents p parse net params u) = None \<longleftrightarrow> \<not> lookup_succeeds p parse net u"
  by (auto simp: urlContents_def lookup_succeeds_def lookup_def Let_def
      split: sum.splits prod.splits list.splits)

lemma urlContents_Some_iff:
  "(\<exists>x. fst (urlContents p parse net params u) = Some x) \<longleftrightarrow> lookup_succeeds p parse net u"
  using urlContents_None_iff [of p parse net params u] by auto

lemma urlContents_text:
  "fst (urlContents p parse net params u) = Some x \<Longrightarrow>
     \<exists>response m. lookup p parse net u = Inr response \<and> m \<in> set (s_results response)
        \<and> x_url x = t_url m \<and> x_text x = resultText params m"
proof -
  assume a: "fst (urlContents p parse net params u) = Some x"
  then obtain urlObj where parse: "parse u = Inr urlObj"
    by (auto simp: urlContents_def split: sum.splits)
  with a obtain response where resp: "lookup p parse net u = Inr response"
    by (cases "fetchTavily p net ''/search'' (contentsRequest u (hostname urlObj))")
       (auto simp: urlContents_def lookup_def split: sum.splits)
  with a parse obtain result rest where res: "s_results response = result # rest"
    by (cases "fetchTavily p net ''/search'' (contentsRequest u (hostname urlObj))")
       (auto simp: urlContents_def lookup_def split: list.splits)
  define m where "m = find_or (\<lambda>r. includes_str (t_url r) (pathname urlObj))
                        (s_results response) result"
  have "m \<in> set (s_results response)"
    unfolding m_def by (rule find_or_in) (simp add: res)
  moreover from a parse resp res have "x_url x = t_url m \<and> x_text x = resultText params m"
    by (cases "fetchTavily p net ''/search'' (contentsRequest u (hostname urlObj))")
       (auto simp: urlContents_def lookup_def Let_def m_def)
  ultimately show ?thesis using resp by blast
qed

lemma resultText_urls_irrelevant:
  "resultText (params\<lparr>urls := us\<rparr>) r = resultText params r"
  by (simp add: resultText_def split: option.splits)

lemma urlContents_urls_irrelevant:
  "urlContents p parse net (params\<lparr>urls := us\<rparr>) u = urlContents p parse net params u"
  by (simp add: urlContents_def resultText_urls_irrelevant
      split: sum.splits prod.splits list.splits)

lemma urlContents_unparseable: "parse u = Inl e \<Longrightarrow> urlContents p parse net params u = (None, [])"
  by (simp add: urlContents_def)

lemma allContents_results:
  "c_results (fst (allContents p parse net params)) =
     map (\<lambda>u. the (fst (urlContents p parse net params u)))
       (filter (lookup_succeeds p parse net) (urls params))"
  by (simp add: allContents_def Let_def filter_map comp_def urlContents_Some_iff)

lemma allContents_ids:
  "map x_id (c_results (fst (allContents p parse net params))) =
     filter (lookup_succeeds p parse net) (urls params)"
proof -
  have "x_id (the (fst (urlContents p parse net params u))) = u"
    if "lookup_succeeds p parse net u" for u
  proof -
    from that obtain x where "fst (urlContents p parse net params u) = Some x"
      using urlContents_None_iff [of p parse net params u] by auto
    then show ?thesis using urlContents_id by fastforce
  qed
  then have "map (\<lambda>u. x_id (the (fst (urlContents p parse net params u))))
               (filter (lookup_succeeds p parse net) (urls params))
             = map (\<lambda>u. u) (filter (lookup_succeeds p parse net) (urls params))"
    by (intro map_cong) auto
  then show ?thesis by (simp add: allContents_results comp_def)
qed

lemma allContents_append:
  "c_results (fst (allContents p parse net (params\<lparr>urls := us @ vs\<rparr>))) =
     c_results (fst (allContents p parse net (params\<lparr>urls := us\<rparr>)))
     @ c_results (fst (allContents p parse net (params\<lparr>urls := vs\<rparr>)))"
  by (simp add: allContents_results urlContents_urls_irrelevant)

lemma allContents_calls_append:
  "snd (allContents p parse net (params\<lparr>urls := us @ vs\<rparr>)) =
     snd (allContents p parse net (params\<lparr>urls := us\<rparr>))
     @ snd (allContents p parse net (params\<lparr>urls := vs\<rparr>))"
  by (simp add: allContents_def Let_def urlContents_urls_irrelevant comp_def)

lemma allContents_drop:
  assumes "fst (urlContents p parse net params u) = None"
  shows "fst (allContents p parse net (params\<lparr>urls := us @ u # vs\<rparr>)) =
         fst (allContents p parse net (params\<lparr>urls := us @ vs\<rparr>))"
  using assms by (simp add: allContents_def Let_def urlContents_urls_irrelevant comp_def)

lemma allContents_no_call:
  assumes "snd (urlContents p parse net params u) = []"
  shows "snd (allContents p parse net (params\<lparr>urls := us @ u # vs\<rparr>)) =
         snd (allContents p parse net (params\<lparr>urls := us @ vs\<rparr>))"
  using assms by (simp add: allContents_def Let_def urlContents_urls_irrelevant comp_def)

lemma exaContentsToolForWorkflow_outcome:
  "fst (exaContentsToolForWorkflow p parse net params) = Inr (fst (allContents p parse net params))"
  by (simp add: exaContentsToolForWorkflow_def)

lemma exaContentsTool_outcome:
  "fst (exaContentsTool p parse net params) = Inr (Inr (fst (allContents p parse net params)))"
  by (simp add: exaContentsTool_def safe_def ifFail_def unwrap_def)

lemma show_nat_500: "show_nat 500 = ''500''"
  by (simp add: show_nat.simps)

lemma sample_process_key: "API_KEY (web_search sample_process) = Some ''tvly-1''"
  by (simp add: sample_process_def load_module_def)

lemma keyless_process_key: "API_KEY (web_search keyless_process) = None"
  by (simp add: keyless_process_def load_module_def)

lemma sample_a_contents:
  "urlContents sample_process sample_parse sample_net params ''https://a.com/x'' =
     (None, [tavilyRequest sample_process ''/search'' (contentsRequest ''https://a.com/x'' ''a.com'')])"
  by (simp add: urlContents_def sample_parse_def fetchTavily_def sample_process_key truthy_def
      tavilyRequest_def contentsRequest_def sample_net_def)

lemma sample_b_contents:
  "urlContents sample_process sample_parse sample_net params ''https://b.com/y'' =
     (Some \<lparr>x_id = ''https://b.com/y'', x_title = ''T'', x_url = ''https://www.b.com/y'',
            x_publishedDate = [], x_author = [], x_text = ''snippet'', x_image = None,
            x_favicon = None, x_score = Some 1\<rparr>,
      [tavilyRequest sample_process ''/search'' (contentsRequest ''https://b.com/y'' ''b.com'')])"
  by (simp add: urlContents_def sample_parse_def fetchTavily_def sample_process_key truthy_def
      tavilyRequest_def contentsRequest_def sample_net_def ok_def sample_result_def find_or_def
      resultText_def or_else_def)

lemma sample_c_contents:
  "urlContents sample_process sample_parse sample_net params ''https://c.com/z'' =
     (None, [tavilyRequest sample_process ''/search'' (contentsRequest ''https://c.com/z'' ''c.com'')])"
  by (simp add: urlContents_def sample_parse_def fetchTavily_def sample_process_key truthy_def
      tavilyRequest_def contentsRequest_def sample_net_def ok_def)

lemma sample_bad_contents:
  "urlContents sample_process sample_parse sample_net params ''not a url'' = (None, [])"
  by (simp add: urlContents_def sample_parse_def)

lemma sample_b_only:
  "fst (allContents sample_process sample_parse sample_net
          \<lparr>urls = [''https://b.com/y''], maxCharacters = None, livecrawl = None\<rparr>) =
     \<lparr>c_results =
        [\<lparr>x_id = ''https://b.com/y'', x_title = ''T'', x_url = ''https://www.b.com/y'',
          x_publishedDate = [], x_author = [], x_text = ''snippet'', x_image = None,
          x_favicon = None, x_score = Some 1\<rparr>]\<rparr>"
  by (simp add: allContents_def sample_b_contents)

lemma sample_transform:
  "results (transformTavilyToExaFormat sample_response) =
     [\<lparr>x_id = ''http://a.com/1'', x_title = ''T'', x_url = ''http://a.com/1'',
       x_publishedDate = [], x_author = [], x_text = ''snippet'',
       x_image = Some ''http://a.png'', x_favicon = None, x_score = Some 1\<rparr>,
      \<lparr>x_id = ''http://b.com/2'', x_title = ''T'', x_url = ''http://b.com/2'',
       x_publishedDate = [], x_author = [], x_text = ''snippet'',
       x_image = None, x_favicon = None, x_score = Some 1\<rparr>]"
  by (simp add: transformTavilyToExaFormat_def sample_response_def sample_result_def
      enumerate_eq_zip imageUrl_def or_else_def upt_rec)

lemma lookup_succeeds_sample:
  "\<not> lookup_succeeds sample_process sample_parse sample_net ''https://a.com/x''"
  "lookup_succeeds sample_process sample_parse sample_net ''https://b.com/y''"
  "\<not> lookup_succeeds sample_process sample_parse sample_net ''not a url''"
  by (simp_all add: lookup_succeeds_def lookup_def sample_parse_def fetchTavily_def
      sample_process_key truthy_def tavilyRequest_def contentsRequest_def sample_net_def ok_def)

lemma sample_search_outcomes:
  "fst (fetchTavily sample_process (answering 500 ''Internal Server Error'' (Inr ''boom''))
          ''/search'' (searchRequest sample_params))
     = Inl (Error ''Tavily API error: 500 Internal Server Error - boom'')"
  "fst (fetchTavily keyless_process (answering 200 ''OK'' (Inr []))
          ''/search'' (searchRequest sample_params))
     = Inl (Error ''TAVILY_API_KEY is not configured'')"
  "fst (fetchTavily sample_process (answering 200 ''OK'' (Inr []))
          ''/search'' (searchRequest sample_params)) = Inr (shaped sample_response)"
  "fst (fetchTavily sample_process (replying v) ''/search'' (searchRequest sample_params)) = Inr v"
  by (simp_all add: fetchTavily_def sample_process_key keyless_process_key truthy_def
      answering_def replying_def ok_def show_nat_500)

lemma sample_translation_failures:
  "transformTavilyToExaFormat_any unshaped_body =
     Inl (Error ''Cannot read properties of undefined (reading 'map')'')"
  "transformTavilyToExaFormat_any JsonNull =
     Inl (Error ''Cannot read properties of null (reading 'request_id')'')"
  by (simp_all add: transformTavilyToExaFormat_any_def unshaped_body_def)

subsection \<open>Result identifiers\<close>

text \<open>
  Claim C1, as stated, fails for contents extraction: the entry's \<open>id\<close> is the
  requested URL (line 319) and its \<open>url\<close> is the URL of the selected backing
  result (line 321). A lookup of \<open>https://b.com/y\<close> answered with a result at
  \<open>https://www.b.com/y\<close> gives an entry whose \<open>id\<close> is not its \<open>url\<close>.
\<close>

theorem contents_id_is_not_url:
  "fst (exaContentsToolForWorkflow sample_process sample_parse sample_net
          \<lparr>urls = [''https://b.com/y''], maxCharacters = None, livecrawl = None\<rparr>) =
     Inr \<lparr>c_results =
        [\<lparr>x_id = ''https://b.com/y'', x_title = ''T'', x_url = ''https://www.b.com/y'',
          x_publishedDate = [], x_author = [], x_text = ''snippet'', x_image = None,
          x_favicon = None, x_score = Some 1\<rparr>]\<rparr>
   \<and> ''https://b.com/y'' \<noteq> ''https://www.b.com/y''"
  by (simp add: exaContentsToolForWorkflow_def sample_b_only)

text \<open>
  Claim C1, amended. The search translation keeps the length of the results list
  and gives every result its \<open>url\<close> as \<open>id\<close>, in both search tools. In contents
  extraction the \<open>id\<close> of an entry is the requested URL: the identifiers of the
  returned entries are the requested URLs whose lookup succeeded, in order.
\<close>

theorem legacy_result_ids:
  "length (results (transformTavilyToExaFormat r)) = length (s_results r)
   \<and> (\<forall>x \<in> set (results (transformTavilyToExaFormat r)). x_id x = x_url x)
   \<and> (\<forall>out. fst (exaSearchToolForWorkflow p net params) = Inr out
          \<longrightarrow> (\<forall>x \<in> set (results out). x_id x = x_url x))
   \<and> (\<forall>out. fst (exaSearchTool p net params) = Inr (Inr out)
          \<longrightarrow> (\<forall>x \<in> set (results out). x_id x = x_url x))
   \<and> (\<forall>u x. fst (urlContents p parse cnet cparams u) = Some x \<longrightarrow> x_id x = u)
   \<and> map x_id (c_results (fst (allContents p parse cnet cparams))) =
       filter (lookup_succeeds p parse cnet) (urls cparams)"
proof -
  have search: "\<forall>x \<in> set (results out). x_id x = x_url x"
    if "fst (exaSearchToolForWorkflow p net params) = Inr out" for out
    using that id_url_transform
    by (auto simp: exaSearchToolForWorkflow_outcome split: sum.splits
        dest!: transformTavilyToExaFormat_any_Inr)
  have "\<forall>x \<in> set (results out). x_id x = x_url x"
    if "fst (exaSearchTool p net params) = Inr (Inr out)" for out
  proof -
    from that obtain result where "fst (exaSearchToolForWorkflow p net params) = Inr result"
      and "results out = results result"
      by (auto simp: exaSearchTool_outcome split: sum.splits)
    then show ?thesis using search by simp
  qed
  with search show ?thesis
    using length_results_transform id_url_transform urlContents_id allContents_ids by blast
qed

theorem legacy_result_ids_witness:
  "length (results (transformTavilyToExaFormat sample_response)) = 2
   \<and> map x_id (results (transformTavilyToExaFormat sample_response)) =
       [''http://a.com/1'', ''http://b.com/2'']
   \<and> map x_url (results (transformTavilyToExaFormat sample_response)) =
       [''http://a.com/1'', ''http://b.com/2'']
   \<and> map x_id (c_results (fst (allContents sample_process sample_parse sample_net
                                   sample_contents_params))) = [''https://b.com/y'']"
  using legacy_result_ids [where r = sample_response and p = sample_process
          and net = "answering 200 ''OK'' (Inr [])" and params = sample_params
          and parse = sample_parse and cnet = sample_net
          and cparams = sample_contents_params]
  by (simp add: sample_transform sample_contents_params_def lookup_succeeds_sample)

subsection \<open>The API key\<close>

text \<open>
  Claim C2, as stated, fails: \<open>API_KEY\<close> is a module-level constant (line 168).
  After the variable is changed to \<open>tvly-2\<close> the next call still sends the key
  \<open>tvly-1\<close> read when the module was loaded, and a module loaded without a key
  still fails although the variable is set by then.
\<close>

theorem rotated_key_is_not_used:
  "env (setenv ''TAVILY_API_KEY'' (Some ''tvly-2'') sample_process) ''TAVILY_API_KEY'' = Some ''tvly-2''
   \<and> map r_headers
        (snd (fetchTavily (setenv ''TAVILY_API_KEY'' (Some ''tvly-2'') sample_process)
                (answering 200 ''OK'' (Inr [])) ''/search'' (searchRequest sample_params)))
     = [[(''Content-Type'', ''application/json''), (''api-key'', ''tvly-1'')]]
   \<and> fetchTavily (setenv ''TAVILY_API_KEY'' (Some ''tvly-2'') keyless_process)
         (answering 200 ''OK'' (Inr [])) ''/search'' (searchRequest sample_params)
     = (Inl (Error ''TAVILY_API_KEY is not configured''), [])"
  by (simp add: setenv_def fetchTavily_def tavilyRequest_def sample_process_def
      keyless_process_def load_module_def truthy_def answering_def ok_def)

text \<open>
  Claim C2, amended. The key is read from the environment once, when the module
  is loaded; no later change of the environment changes what \<open>fetchTavily\<close>
  does, and every request carries the key that the environment held at load time.
\<close>

theorem key_captured_at_load:
  "API_KEY (web_search (load_module e)) = e ''TAVILY_API_KEY''
   \<and> API_KEY (web_search (setenv k v p)) = API_KEY (web_search p)
   \<and> fetchTavily (setenv k v p) net endpoint body = fetchTavily p net endpoint body
   \<and> fetchTavily (p\<lparr>env := e'\<rparr>) net endpoint body = fetchTavily p net endpoint body
   \<and> (\<forall>req \<in> set (snd (fetchTavily (setenv k v (load_module e)) net endpoint body)).
         map_of (r_headers req) ''api-key'' = e ''TAVILY_API_KEY'')"
  by (auto simp: load_module_def setenv_def fetchTavily_def tavilyRequest_def truthy_def
      split: sum.splits option.splits)

theorem key_captured_at_load_witness:
  "map (\<lambda>req. map_of (r_headers req) ''api-key'')
     (snd (fetchTavily (setenv ''TAVILY_API_KEY'' (Some ''tvly-2'')
                          (load_module [''TAVILY_API_KEY'' \<mapsto> ''tvly-1'']))
             (answering 200 ''OK'' (Inr [])) ''/search'' (searchRequest sample_params)))
     = [Some ''tvly-1'']"
proof -
  let ?p = "setenv ''TAVILY_API_KEY'' (Some ''tvly-2'')
              (load_module [''TAVILY_API_KEY'' \<mapsto> ''tvly-1''])"
  let ?calls = "snd (fetchTavily ?p (answering 200 ''OK'' (Inr [])) ''/search''
                       (searchRequest sample_params))"
  have "\<forall>req \<in> set ?calls. map_of (r_headers req) ''api-key'' = Some ''tvly-1''"
    using key_captured_at_load
            [where e = "[''TAVILY_API_KEY'' \<mapsto> ''tvly-1'']" and k = "''TAVILY_API_KEY''"
               and v = "Some ''tvly-2''" and net = "answering 200 ''OK'' (Inr [])"
               and endpoint = "''/search''" and body = "searchRequest sample_params"
               and p = sample_process and e' = Map.empty]
    by simp
  moreover have "?calls = [tavilyRequest ?p ''/search'' (searchRequest sample_params)]"
    by (simp add: fetchTavily_calls truthy_def setenv_def load_module_def)
  ultimately show ?thesis by simp
qed

subsection \<open>The search request\<close>

text \<open>
  Claim C3. The \<open>type\<close> parameter is first normalised: one of the three enum
  values is kept, anything else (absent, empty, unknown) becomes \<open>auto\<close>. The
  request's \<open>search_depth\<close> is \<open>advanced\<close> exactly when the normalised type is
  \<open>neural\<close>, that is exactly when the parameter is \<open>neural\<close>, and \<open>basic\<close>
  otherwise. Both search tools send this request and no other.
\<close>

theorem search_depth_advanced_iff_neural:
  "normalizedType params =
     (if p_type params \<in> {Some ''auto'', Some ''keyword'', Some ''neural''}
      then the (p_type params) else ''auto'')
   \<and> search_depth (searchRequest params) =
       Some (if normalizedType params = ''neural'' then ''advanced'' else ''basic'')
   \<and> (search_depth (searchRequest params) = Some ''advanced'' \<longleftrightarrow> p_type params = Some ''neural'')
   \<and> (search_depth (searchRequest params) = Some ''basic'' \<longleftrightarrow> p_type params \<noteq> Some ''neural'')
   \<and> (\<forall>req \<in> set (snd (exaSearchToolForWorkflow p net params))
                \<union> set (snd (exaSearchTool p net params)).
         r_body req = searchRequest params)"
  by (auto simp: search_depth_searchRequest normalizedType_cases exaSearchToolForWorkflow_calls
      exaSearchTool_calls fetchTavily_calls tavilyRequest_def)

theorem search_depth_advanced_iff_neural_witness:
  "search_depth (searchRequest sample_params) = Some ''advanced''
   \<and> search_depth (searchRequest (sample_params\<lparr>p_type := Some ''keyword''\<rparr>)) = Some ''basic''
   \<and> search_depth (searchRequest (sample_params\<lparr>p_type := Some ''fuzzy''\<rparr>)) = Some ''basic''
   \<and> search_depth (searchRequest (sample_params\<lparr>p_type := None\<rparr>)) = Some ''basic''
   \<and> map (\<lambda>req. search_depth (r_body req))
         (snd (exaSearchTool sample_process (answering 200 ''OK'' (Inr [])) sample_params))
       = [Some ''advanced'']"
  using search_depth_advanced_iff_neural
          [of sample_params sample_process "answering 200 ''OK'' (Inr [])"]
        search_depth_advanced_iff_neural
          [of "sample_params\<lparr>p_type := Some ''keyword''\<rparr>" sample_process
              "answering 200 ''OK'' (Inr [])"]
        search_depth_advanced_iff_neural
          [of "sample_params\<lparr>p_type := Some ''fuzzy''\<rparr>" sample_process
              "answering 200 ''OK'' (Inr [])"]
        search_depth_advanced_iff_neural
          [of "sample_params\<lparr>p_type := None\<rparr>" sample_process
              "answering 200 ''OK'' (Inr [])"]
  by (simp add: sample_params_def exaSearchTool_calls fetchTavily_calls sample_process_key
      truthy_def)

subsection \<open>The backing client\<close>

text \<open>
  Claim C4. Without a key \<open>fetchTavily\<close> fails with the configuration message
  and has made no request. With a key, a 401 answer fails with the invalid-key
  message and a 429 answer with the usage-limit message, which differ; any other
  answer that is not \<open>ok\<close> fails with a message made of the status code, the
  status text and, when the body can be read and is not empty, the body text.
  When reading the body fails the message is the same without the body text.
\<close>

theorem fetchTavily_failures:
  "(\<not> truthy (API_KEY (web_search p)) \<longrightarrow>
      fetchTavily p net endpoint body = (Inl (Error ''TAVILY_API_KEY is not configured''), []))
   \<and> (truthy (API_KEY (web_search p)) \<and> net (tavilyRequest p endpoint body) = Inr response \<longrightarrow>
        (status response = 401 \<longrightarrow>
           fst (fetchTavily p net endpoint body) = Inl (Error ''Invalid Tavily API key''))
      \<and> (status response = 429 \<longrightarrow>
           fst (fetchTavily p net endpoint body) = Inl (Error ''Tavily API usage limit exceeded''))
      \<and> (status response \<notin> {401, 429} \<and> \<not> ok response \<longrightarrow>
           fst (fetchTavily p net endpoint body) =
             Inl (Error (''Tavily API error: '' @ show_nat (status response) @ '' ''
                         @ statusText response
                         @ (case text_body response of
                              Inl e \<Rightarrow> []
                            | Inr t \<Rightarrow> if t = [] then [] else '' - '' @ t)))))
   \<and> ''Invalid Tavily API key'' \<noteq> ''Tavily API usage limit exceeded''"
  by (auto simp: fetchTavily_def Let_def split: sum.splits)

theorem fetchTavily_failures_witness:
  "fetchTavily keyless_process (answering 200 ''OK'' (Inr [])) ''/search''
       (searchRequest sample_params)
     = (Inl (Error ''TAVILY_API_KEY is not configured''), [])
   \<and> fst (fetchTavily sample_process (answering 401 ''Unauthorized'' (Inr [])) ''/search''
       (searchRequest sample_params))
     = Inl (Error ''Invalid Tavily API key'')
   \<and> fst (fetchTavily sample_process (answering 429 ''Too Many Requests'' (Inr [])) ''/search''
       (searchRequest sample_params))
     = Inl (Error ''Tavily API usage limit exceeded'')
   \<and> fst (fetchTavily sample_process (answering 500 ''Internal Server Error'' (Inr ''boom''))
       ''/search'' (searchRequest sample_params))
     = Inl (Error ''Tavily API error: 500 Internal Server Error - boom'')
   \<and> fst (fetchTavily sample_process
            (answering 500 ''Internal Server Error'' (Inl (Error ''body stream already read'')))
       ''/search'' (searchRequest sample_params))
     = Inl (Error ''Tavily API error: 500 Internal Server Error'')"
  using fetchTavily_failures
          [where p = keyless_process and net = "answering 200 ''OK'' (Inr [])"
             and endpoint = "''/search''" and body = "searchRequest sample_params"]
        fetchTavily_failures
          [where p = sample_process and net = "answering 401 ''Unauthorized'' (Inr [])"
             and endpoint = "''/search''" and body = "searchRequest sample_params"
             and response = "\<lparr>status = 401, statusText = ''Unauthorized'', text_body = Inr [],
                                json_body = Inr (shaped sample_response)\<rparr>"]
        fetchTavily_failures
          [where p = sample_process and net = "answering 429 ''Too Many Requests'' (Inr [])"
             and endpoint = "''/search''" and body = "searchRequest sample_params"
             and response = "\<lparr>status = 429, statusText = ''Too Many Requests'',
                                text_body = Inr [], json_body = Inr (shaped sample_response)\<rparr>"]
        fetchTavily_failures
          [where p = sample_process
             and net = "answering 500 ''Internal Server Error'' (Inr ''boom'')"
             and endpoint = "''/search''" and body = "searchRequest sample_params"
             and response = "\<lparr>status = 500, statusText = ''Internal Server Error'',
                                text_body = Inr ''boom'', json_body = Inr (shaped sample_response)\<rparr>"]
        fetchTavily_failures
          [where p = sample_process
             and net = "answering 500 ''Internal Server Error''
                          (Inl (Error ''body stream already read''))"
             and endpoint = "''/search''" and body = "searchRequest sample_params"
             and response = "\<lparr>status = 500, statusText = ''Internal Server Error'',
                                text_body = Inl (Error ''body stream already read''),
                                json_body = Inr (shaped sample_response)\<rparr>"]
  by (simp add: keyless_process_key sample_process_key truthy_def answering_def ok_def
      show_nat_500)

subsection \<open>The interactive search tool\<close>

text \<open>
  Claim C5. \<open>exaSearchTool\<close> always returns. When \<open>fetchTavily\<close> fails with
  an error \<open>e\<close>, and when \<open>fetchTavily\<close> returns a body on which the
  translation fails with an error \<open>e\<close>, it returns exactly the payload with
  \<open>isError\<close> set, the message of \<open>e\<close> and the fixed solution text of the
  search operation (which is not the one of the contents operation). These are
  the failures that the workflow tool lets through. When the translation returns
  a result, in particular for every body of the declared shape, it returns that
  result with the fixed guide text added.
\<close>

theorem exaSearchTool_never_throws:
  "(\<exists>out. fst (exaSearchTool p net params) = Inr out)
   \<and> (\<forall>e. fst (fetchTavily p net ''/search'' (searchRequest params)) = Inl e \<longrightarrow>
          fst (exaSearchTool p net params) =
            Inr (Inl \<lparr>isError = True, error = message e, solution = search_solution\<rparr>))
   \<and> (\<forall>response e.
          fst (fetchTavily p net ''/search'' (searchRequest params)) = Inr response
          \<and> transformTavilyToExaFormat_any response = Inl e \<longrightarrow>
          fst (exaSearchTool p net params) =
            Inr (Inl \<lparr>isError = True, error = message e, solution = search_solution\<rparr>))
   \<and> (\<forall>response result.
          fst (fetchTavily p net ''/search'' (searchRequest params)) = Inr response
          \<and> transformTavilyToExaFormat_any response = Inr result \<longrightarrow>
          fst (exaSearchTool p net params) =
            Inr (Inr \<lparr>requestId = requestId result,
                      autopromptString = autopromptString result,
                      resolvedSearchType = resolvedSearchType result,
                      results = results result,
                      guide = search_guide\<rparr>))
   \<and> (\<forall>r. fst (fetchTavily p net ''/search'' (searchRequest params)) = Inr (shaped r) \<longrightarrow>
          fst (exaSearchTool p net params) =
            Inr (Inr \<lparr>requestId = requestId (transformTavilyToExaFormat r),
                      autopromptString = autopromptString (transformTavilyToExaFormat r),
                      resolvedSearchType = resolvedSearchType (transformTavilyToExaFormat r),
                      results = results (transformTavilyToExaFormat r),
                      guide = search_guide\<rparr>))
   \<and> (\<forall>e. fst (exaSearchToolForWorkflow p net params) = Inl e \<longleftrightarrow>
          fst (fetchTavily p net ''/search'' (searchRequest params)) = Inl e
          \<or> (\<exists>response.
                fst (fetchTavily p net ''/search'' (searchRequest params)) = Inr response
                \<and> transformTavilyToExaFormat_any response = Inl e))
   \<and> (\<forall>e. fst (exaSearchToolForWorkflow p net params) = Inl e \<longrightarrow>
          fst (exaSearchTool p net params) =
            Inr (Inl \<lparr>isError = True, error = message e, solution = search_solution\<rparr>))
   \<and> search_solution \<noteq> contents_solution"
proof -
  have "search_solution \<noteq> contents_solution"
    by (simp add: search_solution_def contents_solution_def)
  moreover have "\<exists>out. fst (exaSearchTool p net params) = Inr out"
    by (simp add: exaSearchTool_outcome split: sum.splits)
  moreover have "fst (exaSearchTool p net params) =
                   Inr (Inl \<lparr>isError = True, error = message e, solution = search_solution\<rparr>)"
    if "fst (exaSearchToolForWorkflow p net params) = Inl e" for e
    using that by (simp add: exaSearchTool_outcome)
  moreover have "fst (exaSearchToolForWorkflow p net params) = Inl e \<longleftrightarrow>
          fst (fetchTavily p net ''/search'' (searchRequest params)) = Inl e
          \<or> (\<exists>response.
                fst (fetchTavily p net ''/search'' (searchRequest params)) = Inr response
                \<and> transformTavilyToExaFormat_any response = Inl e)" for e
    by (auto simp: exaSearchToolForWorkflow_outcome split: sum.splits)
  moreover have "fst (exaSearchTool p net params) =
            Inr (Inr \<lparr>requestId = requestId result,
                      autopromptString = autopromptString result,
                      resolvedSearchType = resolvedSearchType result,
                      results = results result,
                      guide = search_guide\<rparr>)"
    if "fst (fetchTavily p net ''/search'' (searchRequest params)) = Inr response"
      and "transformTavilyToExaFormat_any response = Inr result" for response result
    using that by (simp add: exaSearchTool_outcome exaSearchToolForWorkflow_outcome)
  ultimately show ?thesis
    using transformTavilyToExaFormat_any_shaped by (intro conjI allI impI) blast+
qed

theorem exaSearchTool_never_throws_witness:
  "fst (exaSearchTool sample_process (answering 500 ''Internal Server Error'' (Inr ''boom''))
          sample_params)
     = Inr (Inl \<lparr>isError = True,
                 error = ''Tavily API error: 500 Internal Server Error - boom'',
                 solution = search_solution\<rparr>)
   \<and> fst (exaSearchTool keyless_process (answering 200 ''OK'' (Inr [])) sample_params)
     = Inr (Inl \<lparr>isError = True, error = ''TAVILY_API_KEY is not configured'',
                 solution = search_solution\<rparr>)
   \<and> fst (exaSearchTool sample_process (replying unshaped_body) sample_params)
     = Inr (Inl \<lparr>isError = True,
                 error = ''Cannot read properties of undefined (reading 'map')'',
                 solution = search_solution\<rparr>)
   \<and> fst (exaSearchToolForWorkflow sample_process (replying unshaped_body) sample_params)
     = Inl (Error ''Cannot read properties of undefined (reading 'map')'')
   \<and> fst (exaSearchTool sample_process (replying JsonNull) sample_params)
     = Inr (Inl \<lparr>isError = True,
                 error = ''Cannot read properties of null (reading 'request_id')'',
                 solution = search_solution\<rparr>)
   \<and> fst (exaSearchTool sample_process (answering 200 ''OK'' (Inr [])) sample_params)
     = Inr (Inr \<lparr>requestId = ''req-1'', autopromptString = [], resolvedSearchType = ''neural'',
                 results = results (transformTavilyToExaFormat sample_response),
                 guide = search_guide\<rparr>)"
proof -
  have d: "requestId (transformTavilyToExaFormat sample_response) = ''req-1''"
    "autopromptString (transformTavilyToExaFormat sample_response) = []"
    "resolvedSearchType (transformTavilyToExaFormat sample_response) = ''neural''"
    by (simp_all add: transformTavilyToExaFormat_def sample_response_def or_else_def)
  show ?thesis
    using exaSearchTool_never_throws
            [of sample_process "answering 500 ''Internal Server Error'' (Inr ''boom'')"
                sample_params]
          exaSearchTool_never_throws
            [of keyless_process "answering 200 ''OK'' (Inr [])" sample_params]
          exaSearchTool_never_throws
            [of sample_process "replying unshaped_body" sample_params]
          exaSearchTool_never_throws
            [of sample_process "replying JsonNull" sample_params]
          exaSearchTool_never_throws
            [of sample_process "answering 200 ''OK'' (Inr [])" sample_params]
    by (simp add: sample_search_outcomes sample_translation_failures d)
qed

subsection \<open>Contents extraction\<close>

text \<open>
  Claim C6. The workflow contents tool never fails. Its results are the entries
  of exactly the URLs whose lookup succeeded with at least one result, in the
  order of \<open>urls\<close>; a URL whose lookup fails or holds no result contributes
  nothing. The entry of a URL does not depend on the other URLs of the call, and
  the results of a list of URLs are the results of its parts, one after the
  other; so are the requests made, whatever the outcome of each.
\<close>

theorem contents_partial_failure:
  "fst (exaContentsToolForWorkflow p parse net params) = Inr (fst (allContents p parse net params))
   \<and> c_results (fst (allContents p parse net params)) =
       map (\<lambda>u. the (fst (urlContents p parse net params u)))
         (filter (lookup_succeeds p parse net) (urls params))
   \<and> (\<forall>u. lookup_succeeds p parse net u \<longleftrightarrow> fst (urlContents p parse net params u) \<noteq> None)
   \<and> (\<forall>u us. urlContents p parse net (params\<lparr>urls := us\<rparr>) u = urlContents p parse net params u)
   \<and> (\<forall>us vs. c_results (fst (allContents p parse net (params\<lparr>urls := us @ vs\<rparr>))) =
         c_results (fst (allContents p parse net (params\<lparr>urls := us\<rparr>)))
         @ c_results (fst (allContents p parse net (params\<lparr>urls := vs\<rparr>))))
   \<and> (\<forall>us vs. snd (exaContentsToolForWorkflow p parse net (params\<lparr>urls := us @ vs\<rparr>)) =
         snd (exaContentsToolForWorkflow p parse net (params\<lparr>urls := us\<rparr>))
         @ snd (exaContentsToolForWorkflow p parse net (params\<lparr>urls := vs\<rparr>)))"
  using urlContents_None_iff [of p parse net params]
  by (simp add: exaContentsToolForWorkflow_outcome allContents_results
      urlContents_urls_irrelevant allContents_append)
     (simp add: exaContentsToolForWorkflow_def allContents_calls_append)

theorem contents_partial_failure_witness:
  "lookup sample_process sample_parse sample_net ''https://a.com/x'' = Inl (Error ''fetch failed'')
   \<and> fst (exaContentsToolForWorkflow sample_process sample_parse sample_net sample_contents_params)
     = Inr \<lparr>c_results =
         [\<lparr>x_id = ''https://b.com/y'', x_title = ''T'', x_url = ''https://www.b.com/y'',
           x_publishedDate = [], x_author = [], x_text = ''snippet'', x_image = None,
           x_favicon = None, x_score = Some 1\<rparr>]\<rparr>"
proof -
  note t = contents_partial_failure
             [of sample_process sample_parse sample_net sample_contents_params]
  let ?all = "fst (allContents sample_process sample_parse sample_net sample_contents_params)"
  have "lookup sample_process sample_parse sample_net ''https://a.com/x''
          = Inl (Error ''fetch failed'')"
    by (simp add: lookup_def sample_parse_def fetchTavily_def sample_process_key truthy_def
        tavilyRequest_def contentsRequest_def sample_net_def)
  moreover have "filter (lookup_succeeds sample_process sample_parse sample_net)
                   (urls sample_contents_params) = [''https://b.com/y'']"
    by (simp add: sample_contents_params_def lookup_succeeds_sample)
  with t [THEN conjunct2, THEN conjunct1]
  have "c_results ?all =
      [\<lparr>x_id = ''https://b.com/y'', x_title = ''T'', x_url = ''https://www.b.com/y'',
        x_publishedDate = [], x_author = [], x_text = ''snippet'', x_image = None,
        x_favicon = None, x_score = Some 1\<rparr>]"
    by (simp add: sample_b_contents)
  then have "?all = \<lparr>c_results =
      [\<lparr>x_id = ''https://b.com/y'', x_title = ''T'', x_url = ''https://www.b.com/y'',
        x_publishedDate = [], x_author = [], x_text = ''snippet'', x_image = None,
        x_favicon = None, x_score = Some 1\<rparr>]\<rparr>"
    by (cases ?all) simp
  ultimately show ?thesis using t [THEN conjunct1] by simp
qed

subsection \<open>Optional request fields\<close>

text \<open>
  Claim C7. The optional fields of the request: \<open>topic\<close> is \<open>news\<close> exactly
  when the category is \<open>news\<close> and is absent otherwise (never \<open>general\<close>); the
  two domain lists and the two dates are copied exactly when the parameter is
  given and not empty, and are absent otherwise; the remaining optional fields of
  the interface are never set.
\<close>

theorem searchRequest_optional_fields:
  "topic (searchRequest params) = (if p_category params = Some ''news'' then Some ''news'' else None)
   \<and> include_domains (searchRequest params) =
       (if p_includeDomains params \<in> {None, Some []} then None else p_includeDomains params)
   \<and> exclude_domains (searchRequest params) =
       (if p_excludeDomains params \<in> {None, Some []} then None else p_excludeDomains params)
   \<and> start_date (searchRequest params) =
       (if p_startPublishedDate params \<in> {None, Some []} then None
        else p_startPublishedDate params)
   \<and> end_date (searchRequest params) =
       (if p_endPublishedDate params \<in> {None, Some []} then None else p_endPublishedDate params)
   \<and> time_range (searchRequest params) = None
   \<and> country (searchRequest params) = None
   \<and> max_tokens (searchRequest params) = None
   \<and> chunks_per_source (searchRequest params) = None"
  by (simp add: searchRequest_def Let_def has_length_iff truthy_iff)

theorem searchRequest_optional_fields_witness:
  "topic (searchRequest sample_params) = Some ''news''
   \<and> topic (searchRequest (sample_params\<lparr>p_category := Some ''pdf''\<rparr>)) = None
   \<and> include_domains (searchRequest sample_params) = Some [''a.com'']
   \<and> exclude_domains (searchRequest sample_params) = None
   \<and> start_date (searchRequest sample_params) = Some ''2024-01-01''
   \<and> end_date (searchRequest sample_params) = None"
  using searchRequest_optional_fields [of sample_params]
        searchRequest_optional_fields [of "sample_params\<lparr>p_category := Some ''pdf''\<rparr>"]
  by (simp add: sample_params_def)

subsection \<open>Images\<close>

text \<open>
  Claim C8, as stated, fails for an object entry whose \<open>url\<close> is the empty
  string: the test \<open>imageItem?.url\<close> (line 217) is false for it, so the image is
  left unset and the \<open>url\<close> field is not used.
\<close>

theorem empty_object_url_leaves_image_unset:
  "x_image (results (transformTavilyToExaFormat
       (sample_response\<lparr>s_images := Some [ImageObject \<lparr>i_url = [], i_description = None\<rparr>]\<rparr>)) ! 0)
     = None
   \<and> Some (i_url \<lparr>i_url = [], i_description = None\<rparr>) \<noteq> (None :: string option)"
  by (simp add: transformTavilyToExaFormat_def sample_response_def sample_result_def
      enumerate_eq_zip imageUrl_def upt_rec)

text \<open>
  Claim C8, amended. The translation keeps the number of results, and the image
  of the result at index \<open>i\<close> is: the entry itself when the images list has a
  string at \<open>i\<close>; the \<open>url\<close> of the entry when it has an object with a
  non-empty \<open>url\<close> at \<open>i\<close>; unset in every other case (no images list, index
  \<open>i\<close> beyond its end, an object with an empty \<open>url\<close>).
\<close>

theorem image_by_index:
  "length (results (transformTavilyToExaFormat r)) = length (s_results r)
   \<and> (\<forall>i < length (s_results r).
         x_image (results (transformTavilyToExaFormat r) ! i) =
           (case s_images r of
              None \<Rightarrow> None
            | Some imgs \<Rightarrow>
                if i < length imgs then
                  (case imgs ! i of
                     ImageString s \<Rightarrow> Some s
                   | ImageObject obj \<Rightarrow> if i_url obj = [] then None else Some (i_url obj))
                else None))"
  by (auto simp: length_results_transform nth_results_transform imageUrl_def
      split: option.splits image_item.splits)

theorem image_by_index_witness:
  "map x_image (results (transformTavilyToExaFormat sample_response)) =
     [Some ''http://a.png'', None]
   \<and> s_images sample_response = Some [ImageString ''http://a.png'']
   \<and> length (s_results sample_response) = 2"
  using image_by_index [of sample_response]
  by (simp add: sample_transform) (simp add: sample_response_def)

subsection \<open>Truncation\<close>

text \<open>
  Claim C9, as stated, fails when the raw content is present and empty: the
  truncated text is then the empty string, which \<open>||\<close> (line 328) replaces by the
  content snippet.
\<close>

theorem empty_raw_content_falls_back:
  "resultText \<lparr>urls = [], maxCharacters = Some 3000, livecrawl = None\<rparr>
     ((sample_result ''https://b.com/y'')\<lparr>t_raw_content := Some []\<rparr>) = ''snippet''
   \<and> substring0 [] 3000 \<noteq> ''snippet''"
  by (simp add: resultText_def sample_result_def or_else_def substring0_def)

text \<open>
  Claim C9, amended. The text of a selected result is the content snippet,
  untruncated, when the raw content is absent or empty. When the raw content is
  present and not empty, the text is its first \<open>maxCharacters\<close> characters for
  a positive \<open>maxCharacters\<close>, and its first 3000 characters when
  \<open>maxCharacters\<close> is absent or zero. A raw content of 5000 characters with
  \<open>maxCharacters\<close> 3000 gives its first 3000 characters. Every entry of the
  contents tools carries this text for one of the results of its lookup.
\<close>

theorem resultText_truncation:
  "(t_raw_content r \<in> {None, Some []} \<longrightarrow> resultText params r = t_content r)
   \<and> (\<forall>raw n. t_raw_content r = Some raw \<and> raw \<noteq> [] \<and> maxCharacters params = Some n \<and> 0 < n
         \<longrightarrow> resultText params r = take (nat n) raw)
   \<and> (\<forall>raw. t_raw_content r = Some raw \<and> raw \<noteq> [] \<and> maxCharacters params \<in> {None, Some 0}
         \<longrightarrow> resultText params r = take 3000 raw)
   \<and> (\<forall>raw. t_raw_content r = Some raw \<and> length raw = 5000 \<and> maxCharacters params = Some 3000
         \<longrightarrow> length (resultText params r) = 3000 \<and> resultText params r = take 3000 raw)
   \<and> (\<forall>x. fst (urlContents p parse net params u) = Some x
         \<longrightarrow> (\<exists>response m. lookup p parse net u = Inr response \<and> m \<in> set (s_results response)
                 \<and> x_url x = t_url m \<and> x_text x = resultText params m))"
proof -
  have "resultText params r = take (nat n) raw"
    if "t_raw_content r = Some raw" "raw \<noteq> []" "maxCharacters params = Some n" "0 < n"
    for raw n
    using that by (cases raw) (auto simp: resultText_def or_else_def substring0_def)
  moreover have "resultText params r = take 3000 raw"
    if "t_raw_content r = Some raw" "raw \<noteq> []" "maxCharacters params \<in> {None, Some 0}" for raw
    using that by (cases raw) (auto simp: resultText_def or_else_def substring0_def)
  moreover have "length (resultText params r) = 3000 \<and> resultText params r = take 3000 raw"
    if "t_raw_content r = Some raw" "length raw = 5000" "maxCharacters params = Some 3000" for raw
    using that by (cases raw) (auto simp: resultText_def or_else_def substring0_def)
  moreover have "resultText params r = t_content r" if "t_raw_content r \<in> {None, Some []}"
    using that by (auto simp: resultText_def or_else_def substring0_def)
  ultimately show ?thesis using urlContents_text by blast
qed

theorem resultText_truncation_witness:
  "resultText \<lparr>urls = [], maxCharacters = Some 3000, livecrawl = None\<rparr>
     ((sample_result ''https://b.com/y'')\<lparr>t_raw_content := Some (replicate 5000 CHR ''a'')\<rparr>)
     = replicate 3000 CHR ''a''
   \<and> resultText \<lparr>urls = [], maxCharacters = None, livecrawl = None\<rparr>
     ((sample_result ''https://b.com/y'')\<lparr>t_raw_content := Some ''abc''\<rparr>) = ''abc''
   \<and> resultText \<lparr>urls = [], maxCharacters = Some 2, livecrawl = None\<rparr>
     ((sample_result ''https://b.com/y'')\<lparr>t_raw_content := Some ''abc''\<rparr>) = ''ab''
   \<and> resultText \<lparr>urls = [], maxCharacters = Some 3000, livecrawl = None\<rparr>
     (sample_result ''https://b.com/y'') = ''snippet''
   \<and> map x_text (c_results (fst (allContents sample_process sample_parse sample_net
         \<lparr>urls = [''https://b.com/y''], maxCharacters = None, livecrawl = None\<rparr>))) = [''snippet'']"
  using resultText_truncation
          [where r = "(sample_result ''https://b.com/y'')\<lparr>t_raw_content := Some (replicate 5000 CHR ''a'')\<rparr>"
             and params = "\<lparr>urls = [], maxCharacters = Some 3000, livecrawl = None\<rparr>"
             and p = sample_process and parse = sample_parse and net = sample_net
             and u = "''https://b.com/y''"]
        resultText_truncation
          [where r = "(sample_result ''https://b.com/y'')\<lparr>t_raw_content := Some ''abc''\<rparr>"
             and params = "\<lparr>urls = [], maxCharacters = None, livecrawl = None\<rparr>"
             and p = sample_process and parse = sample_parse and net = sample_net
             and u = "''https://b.com/y''"]
        resultText_truncation
          [where r = "(sample_result ''https://b.com/y'')\<lparr>t_raw_content := Some ''abc''\<rparr>"
             and params = "\<lparr>urls = [], maxCharacters = Some 2, livecrawl = None\<rparr>"
             and p = sample_process and parse = sample_parse and net = sample_net
             and u = "''https://b.com/y''"]
        resultText_truncation
          [where r = "sample_result ''https://b.com/y''"
             and params = "\<lparr>urls = [], maxCharacters = Some 3000, livecrawl = None\<rparr>"
             and p = sample_process and parse = sample_parse and net = sample_net
             and u = "''https://b.com/y''"]
  by (simp add: sample_result_def sample_b_only)

subsection \<open>Unparseable URLs\<close>

text \<open>
  Claim C10. A URL that \<open>new URL\<close> rejects gives no entry and no request. Both
  contents tools return for a list holding it what they return for the list
  without it, requests included, and neither fails. Their returned value is also
  the one they return when the URL is replaced by one whose lookup holds no
  result.
\<close>

theorem unparseable_url_is_dropped:
  "parse u = Inl e \<Longrightarrow>
     urlContents p parse net params u = (None, [])
     \<and> exaContentsToolForWorkflow p parse net (params\<lparr>urls := us @ u # vs\<rparr>) =
         exaContentsToolForWorkflow p parse net (params\<lparr>urls := us @ vs\<rparr>)
     \<and> exaContentsTool p parse net (params\<lparr>urls := us @ u # vs\<rparr>) =
         exaContentsTool p parse net (params\<lparr>urls := us @ vs\<rparr>)
     \<and> (\<exists>out. fst (exaContentsToolForWorkflow p parse net (params\<lparr>urls := us @ u # vs\<rparr>))
                = Inr out)
     \<and> (\<exists>out. fst (exaContentsTool p parse net (params\<lparr>urls := us @ u # vs\<rparr>))
                = Inr (Inr out))
     \<and> (\<forall>u' response.
           lookup p parse net u' = Inr response \<and> s_results response = [] \<longrightarrow>
             fst (exaContentsToolForWorkflow p parse net (params\<lparr>urls := us @ u' # vs\<rparr>)) =
             fst (exaContentsToolForWorkflow p parse net (params\<lparr>urls := us @ u # vs\<rparr>))
           \<and> fst (exaContentsTool p parse net (params\<lparr>urls := us @ u' # vs\<rparr>)) =
             fst (exaContentsTool p parse net (params\<lparr>urls := us @ u # vs\<rparr>)))"
proof -
  assume a: "parse u = Inl e"
  then have u: "urlContents p parse net params u = (None, [])"
    by (rule urlContents_unparseable)
  then have drop: "allContents p parse net (params\<lparr>urls := us @ u # vs\<rparr>) =
                   allContents p parse net (params\<lparr>urls := us @ vs\<rparr>)"
    by (simp add: prod_eq_iff allContents_drop allContents_no_call)
  have "fst (allContents p parse net (params\<lparr>urls := us @ u' # vs\<rparr>)) =
        fst (allContents p parse net (params\<lparr>urls := us @ u # vs\<rparr>))"
    if "lookup p parse net u' = Inr response" "s_results response = []" for u' response
  proof -
    from that have "\<not> lookup_succeeds p parse net u'"
      by (simp add: lookup_succeeds_def)
    then have "fst (urlContents p parse net params u') = None"
      by (simp add: urlContents_None_iff)
    then show ?thesis using u by (simp add: allContents_drop)
  qed
  with u drop show ?thesis
    by (simp add: exaContentsToolForWorkflow_def exaContentsTool_def safe_def ifFail_def
        unwrap_def)
qed

theorem unparseable_url_is_dropped_witness:
  "sample_parse ''not a url'' = Inl (Error ''Invalid URL'')
   \<and> exaContentsToolForWorkflow sample_process sample_parse sample_net
        \<lparr>urls = [''not a url'', ''https://b.com/y''], maxCharacters = None, livecrawl = None\<rparr>
     = exaContentsToolForWorkflow sample_process sample_parse sample_net
        \<lparr>urls = [''https://b.com/y''], maxCharacters = None, livecrawl = None\<rparr>
   \<and> exaContentsTool sample_process sample_parse sample_net
        \<lparr>urls = [''not a url'', ''https://b.com/y''], maxCharacters = None, livecrawl = None\<rparr>
     = exaContentsTool sample_process sample_parse sample_net
        \<lparr>urls = [''https://b.com/y''], maxCharacters = None, livecrawl = None\<rparr>
   \<and> fst (exaContentsTool sample_process sample_parse sample_net
        \<lparr>urls = [''https://c.com/z'', ''https://b.com/y''], maxCharacters = None, livecrawl = None\<rparr>)
     = fst (exaContentsTool sample_process sample_parse sample_net
        \<lparr>urls = [''not a url'', ''https://b.com/y''], maxCharacters = None, livecrawl = None\<rparr>)"
proof -
  have p: "sample_parse ''not a url'' = Inl (Error ''Invalid URL'')"
    by (simp add: sample_parse_def)
  have c: "lookup sample_process sample_parse sample_net ''https://c.com/z'' =
             Inr \<lparr>s_query = ''https://c.com/z'', s_results = [], s_answer = None,
                  s_images = None, s_response_time = 1, s_request_id = ''req-2''\<rparr>"
    by (simp add: lookup_def sample_parse_def fetchTavily_def sample_process_key truthy_def
        tavilyRequest_def contentsRequest_def sample_net_def ok_def)
  note t = unparseable_url_is_dropped
             [where parse = sample_parse and u = "''not a url''" and e = "Error ''Invalid URL''"
                and p = sample_process and net = sample_net
                and params = "\<lparr>urls = [], maxCharacters = None, livecrawl = None\<rparr>"
                and us = "[]" and vs = "[''https://b.com/y'']", OF p]
  from t have "exaContentsToolForWorkflow sample_process sample_parse sample_net
        \<lparr>urls = [''not a url'', ''https://b.com/y''], maxCharacters = None, livecrawl = None\<rparr>
     = exaContentsToolForWorkflow sample_process sample_parse sample_net
        \<lparr>urls = [''https://b.com/y''], maxCharacters = None, livecrawl = None\<rparr>"
    by simp
  moreover from t have "exaContentsTool sample_process sample_parse sample_net
        \<lparr>urls = [''not a url'', ''https://b.com/y''], maxCharacters = None, livecrawl = None\<rparr>
     = exaContentsTool sample_process sample_parse sample_net
        \<lparr>urls = [''https://b.com/y''], maxCharacters = None, livecrawl = None\<rparr>"
    by simp
  moreover from t c have "fst (exaContentsTool sample_process sample_parse sample_net
        \<lparr>urls = [''https://c.com/z'', ''https://b.com/y''], maxCharacters = None, livecrawl = None\<rparr>)
     = fst (exaContentsTool sample_process sample_parse sample_net
        \<lparr>urls = [''not a url'', ''https://b.com/y''], maxCharacters = None, livecrawl = None\<rparr>)"
    by simp
  ultimately show ?thesis using p by simp
qed

end
